theory Spec2Isabelle
  imports Main "HOL-Library.Multiset"
begin

section \<open>JavaScript values used by the server\<close>

text \<open>
  A JavaScript string is a sequence of UTF-16 code units; \<open>split('')\<close>, \<open>splice\<close> and the
  grounding offsets all count code units. The model writes a string as a \<^typ>\<open>string\<close>, one
  \<^typ>\<open>char\<close> per code unit (code units 0 to 255). A JavaScript \<open>number\<close> that the code uses
  as an index is an \<^typ>\<open>int\<close>; an optional field (\<open>?:\<close>, \<open>undefined\<close>, \<open>null\<close>) is an
  \<^typ>\<open>'a option\<close>.
\<close>

text \<open>Truthiness of an optional string: \<open>undefined\<close>, \<open>null\<close> and \<open>''\<close> are falsy.\<close>

fun truthy :: "string option \<Rightarrow> bool" where
  "truthy None = False"
| "truthy (Some s) = (s \<noteq> [])"

text \<open>\<open>a || b\<close> on optional strings, and \<open>a || 'literal'\<close>.\<close>

definition or_else :: "string option \<Rightarrow> string option \<Rightarrow> string option" where
  "or_else a b = (if truthy a then a else b)"

definition or_default :: "string option \<Rightarrow> string \<Rightarrow> string" where
  "or_default a d = (case a of None \<Rightarrow> d | Some s \<Rightarrow> if s = [] then d else s)"

text \<open>Template-literal rendering of an integer-valued number: \<open>`${n}`\<close>.\<close>

definition digit_char :: "nat \<Rightarrow> char" where
  "digit_char d = char_of (48 + d)"

fun show_nat :: "nat \<Rightarrow> string" where
  "show_nat n = (if n < 10 then [digit_char n] else show_nat (n div 10) @ [digit_char (n mod 10)])"

declare show_nat.simps [simp del]

definition show_int :: "int \<Rightarrow> string" where
  "show_int i = (if i < 0 then CHR ''-'' # show_nat (nat (- i)) else show_nat (nat i))"

text \<open>\<open>Array.prototype.join(sep)\<close> on an array of strings.\<close>

fun join :: "string \<Rightarrow> string list \<Rightarrow> string" where
  "join sep [] = []"
| "join sep [x] = x"
| "join sep (x # y # ys) = x @ sep @ join sep (y # ys)"

text \<open>
  \<open>String.prototype.trim()\<close> strips white space and line terminators from both ends. Among the
  code units 0 to 255 these are TAB, LF, VT, FF, CR, SPACE and NO-BREAK SPACE.
\<close>

definition is_js_whitespace :: "char \<Rightarrow> bool" where
  "is_js_whitespace c = (of_char c \<in> {9, 10, 11, 12, 13, 32, 160 :: nat})"

definition trim :: "string \<Rightarrow> string" where
  "trim s = rev (dropWhile is_js_whitespace (rev (dropWhile is_js_whitespace s)))"

text \<open>
  \<open>Array.prototype.splice(start, 0, item)\<close>: a negative \<open>start\<close> counts from the end and stops
  at 0, a \<open>start\<close> beyond the length is the length; nothing is deleted, \<open>item\<close> is inserted
  there. It never throws.
\<close>

definition splice_js :: "'a list \<Rightarrow> int \<Rightarrow> 'a \<Rightarrow> 'a list" where
  "splice_js xs start item =
     (let len = int (length xs);
          k = (if start < 0 then max (len + start) 0 else min start len)
      in take (nat k) xs @ [item] @ drop (nat k) xs)"

section \<open>Grounding metadata (src/index.ts)\<close>

record GroundingChunkWeb =
  uri :: "string option"
  title :: "string option"

record GroundingChunkItem =
  web :: "GroundingChunkWeb option"

text \<open>The segment's optional \<open>text\<close> and the support's \<open>confidenceScores\<close> are never read.\<close>

record GroundingSupportSegment =
  startIndex :: int
  endIndex :: int

record GroundingSupportItem =
  segment :: "GroundingSupportSegment option"
  groundingChunkIndices :: "int list option"

record Insertion =
  index :: int
  marker :: string

section \<open>The citation merger (handleWebSearch, lines 195 to 231)\<close>

text \<open>\<open>sources.forEach((source, index) => sourceListFormatted.push(...))\<close>\<close>

definition format_source :: "nat \<Rightarrow> GroundingChunkItem \<Rightarrow> string" where
  "format_source i source =
     (let title = or_default (case web source of None \<Rightarrow> None | Some w \<Rightarrow> GroundingChunkWeb.title w) ''Untitled'';
          uri = or_default (case web source of None \<Rightarrow> None | Some w \<Rightarrow> GroundingChunkWeb.uri w) ''No URI''
      in ''['' @ show_nat (i + 1) @ ''] '' @ title @ '' ('' @ uri @ '')'')"

fun format_sources :: "nat \<Rightarrow> GroundingChunkItem list \<Rightarrow> string list" where
  "format_sources i [] = []"
| "format_sources i (s # ss) = format_source i s # format_sources (i + 1) ss"

text \<open>\<open>support.groundingChunkIndices.map(chunkIndex => `[${chunkIndex + 1}]`).join('')\<close>\<close>

definition citationMarker :: "int list \<Rightarrow> string" where
  "citationMarker ixs = join [] (map (\<lambda>chunkIndex. ''['' @ show_int (chunkIndex + 1) @ '']'') ixs)"

text \<open>
  \<open>groundingSupports.forEach\<close>: a support with a segment and a chunk-index array (an empty
  array is truthy) pushes one insertion at the segment's \<open>endIndex\<close>.
\<close>

fun build_insertions :: "GroundingSupportItem list \<Rightarrow> Insertion list" where
  "build_insertions [] = []"
| "build_insertions (support # rest) =
     (case (segment support, groundingChunkIndices support) of
        (Some seg, Some ixs) \<Rightarrow>
          \<lparr>index = endIndex seg, marker = citationMarker ixs\<rparr> # build_insertions rest
      | _ \<Rightarrow> build_insertions rest)"

text \<open>
  \<open>insertions.sort((a, b) => b.index - a.index)\<close>: the sort of the language is stable, so it
  is an insertion sort on the key \<open>- index\<close>.
\<close>

definition sort_insertions :: "Insertion list \<Rightarrow> Insertion list" where
  "sort_insertions ins = sort_key (\<lambda>i. - index i) ins"

text \<open>\<open>insertions.forEach(insertion => responseChars.splice(insertion.index, 0, insertion.marker))\<close>\<close>

definition apply_insertions :: "string list \<Rightarrow> Insertion list \<Rightarrow> string list" where
  "apply_insertions responseChars ins =
     foldl (\<lambda>buf insertion. splice_js buf (index insertion) (marker insertion)) responseChars ins"

text \<open>Lines 219 to 225: sort, split into code units, splice every marker in, join.\<close>

definition insert_markers :: "string \<Rightarrow> Insertion list \<Rightarrow> string" where
  "insert_markers str ins =
     concat (apply_insertions (map (\<lambda>c. [c]) str) (sort_insertions ins))"

definition citation_merger ::
  "string \<Rightarrow> GroundingChunkItem list option \<Rightarrow> GroundingSupportItem list option \<Rightarrow> string" where
  "citation_merger responseText sources groundingSupports =
     (case sources of
        None \<Rightarrow> responseText
      | Some srcs \<Rightarrow>
          if length srcs > 0 then
            let sourceListFormatted = format_sources 0 srcs;
                modified =
                  (case groundingSupports of
                     None \<Rightarrow> responseText
                   | Some sups \<Rightarrow>
                       if length sups > 0
                       then insert_markers responseText (build_insertions sups)
                       else responseText)
            in if length sourceListFormatted > 0
               then modified @ ''\<newline>\<newline>Sources:\<newline>'' @ join ''\<newline>'' sourceListFormatted
               else modified
          else responseText)"

text \<open>
  Following the spec's words, for comparison with the code: every marker sits at its recorded
  offset of the text before any insertion, in front of the code unit at that offset (or after
  the last one when the offset is the length); markers that share an offset stack in
  reverse-discovery order.
\<close>

definition markers_at :: "Insertion list \<Rightarrow> nat \<Rightarrow> string list" where
  "markers_at ins p = rev (map marker (filter (\<lambda>i. index i = int p) ins))"

fun spec_place_from :: "nat \<Rightarrow> string \<Rightarrow> Insertion list \<Rightarrow> string" where
  "spec_place_from p [] ins = concat (markers_at ins p)"
| "spec_place_from p (c # cs) ins = concat (markers_at ins p) @ [c] @ spec_place_from (Suc p) cs ins"

definition spec_place_markers :: "string \<Rightarrow> Insertion list \<Rightarrow> string" where
  "spec_place_markers str ins = spec_place_from 0 str ins"

text \<open>The same placement on the buffer of array elements that \<open>splice\<close> works on.\<close>

fun place_buf :: "nat \<Rightarrow> string list \<Rightarrow> Insertion list \<Rightarrow> string list" where
  "place_buf p [] ins = markers_at ins p"
| "place_buf p (x # xs) ins = markers_at ins p @ [x] @ place_buf (Suc p) xs ins"

section \<open>The search operation (src/index.ts, class GoogleWebSearchMCP)\<close>

text \<open>A thrown value: \<open>new Error(message)\<close>.\<close>

datatype js_error = Error string

fun message :: "js_error \<Rightarrow> string" where
  "message (Error m) = m"

text \<open>\<open>process.env\<close>: a variable that is not set reads as \<open>undefined\<close>.\<close>

type_synonym environment = "string \<rightharpoonup> string"

text \<open>A string between double quotes, as the message templates write \<open>"${args.query}"\<close>.\<close>

definition quoted :: "string \<Rightarrow> string" where
  "quoted s = CHR 0x22 # s @ [CHR 0x22]"

text \<open>\<open>`${v}`\<close> for a string that may be \<open>undefined\<close>.\<close>

definition template :: "string option \<Rightarrow> string" where
  "template v = (case v of None \<Rightarrow> ''undefined'' | Some s \<Rightarrow> s)"

record Credentials =
  access_token :: "string option"
  refresh_token :: "string option"
  expiry_date :: "int option"
  scope :: "string option"
  token_type :: "string option"
  id_token :: "string option"

record OAuth2Client =
  credentials :: Credentials

text \<open>The tool's answer: the one text item of \<open>content\<close>, and the \<open>isError\<close> flag.\<close>

record CallToolResult =
  content_text :: string
  isError :: bool

text \<open>
  What either backend hands back: the response text (\<open>undefined\<close> when the optional chain
  finds none), the grounding chunks and the grounding supports.
\<close>

record SearchPayload =
  responseText :: "string option"
  groundingChunks :: "GroundingChunkItem list option"
  groundingSupports :: "GroundingSupportItem list option"

text \<open>
  The result of \<open>fetch\<close>: it throws, or it answers with a status, a status text, and a body;
  \<open>response.json()\<close> gives the parsed body or throws the parser's error.
\<close>

record 'a HttpResponse =
  status :: nat
  statusText :: string
  body_text :: string
  body_json :: "js_error + 'a"

definition ok :: "'a HttpResponse \<Rightarrow> bool" where
  "ok r = (200 \<le> status r \<and> status r \<le> 299)"

text \<open>The fields of the class instance. The model is known by the API key it was built with.\<close>

record Session =
  model :: "string option"
  oauthClient :: "OAuth2Client option"
  projectId :: "string option"

definition new_session :: Session where
  "new_session = \<lparr>model = None, oauthClient = None, projectId = None\<rparr>"

text \<open>
  Everything outside the process that \<open>handleWebSearch\<close> depends on: the environment, what
  \<open>getOauthClient\<close> and \<open>setupUserProject\<close> come back with (a client or a project id,
  or the error they throw), and what the two search backends answer for a project and a query.
  The access token of the \<open>Authorization\<close> header is fetched as part of the request.
\<close>

record SearchWorld =
  env :: environment
  getOauthClient_result :: "js_error + OAuth2Client"
  setupUserProject_result :: "OAuth2Client \<Rightarrow> js_error + string"
  generateContent_fetch :: "string \<Rightarrow> string \<Rightarrow> js_error + SearchPayload HttpResponse"
  sendMessage_result :: "string \<Rightarrow> js_error + SearchPayload"

text \<open>The calls that leave the process, in the order they are made.\<close>

datatype NetCall =
    GetOauthClient
  | SetupUserProject
  | FetchGenerateContent string string
  | SendMessage string

definition auth_required_message :: string where
  "auth_required_message =
     ''Authentication required. Either set GOOGLE_API_KEY/GEMINI_API_KEY environment variable '' @
     ''or set USE_OAUTH=true to use Google login. '' @
     ''Get your API key from https://makersuite.google.com/app/apikey''"

text \<open>
  \<open>initializeGeminiClient\<close>, lines 65 to 104. The client is assigned before the project is
  set up, so it stays assigned when \<open>setupUserProject\<close> throws.
\<close>

definition initializeGeminiClient ::
  "SearchWorld \<Rightarrow> Session \<Rightarrow> (js_error + unit) \<times> Session \<times> NetCall list" where
  "initializeGeminiClient w s =
     (let apiKey = or_else (env w ''GOOGLE_API_KEY'') (env w ''GEMINI_API_KEY'');
          useOAuth = (env w ''USE_OAUTH'' = Some ''true'' \<or> \<not> truthy apiKey)
      in if useOAuth then
           (case getOauthClient_result w of
              Inl e \<Rightarrow> (Inl e, s, [GetOauthClient])
            | Inr client \<Rightarrow>
                (case setupUserProject_result w client of
                   Inl e \<Rightarrow> (Inl e, s\<lparr>oauthClient := Some client\<rparr>, [GetOauthClient, SetupUserProject])
                 | Inr p \<Rightarrow>
                     (Inr (), s\<lparr>oauthClient := Some client, projectId := Some p\<rparr>,
                      [GetOauthClient, SetupUserProject])))
         else if truthy apiKey then (Inr (), s\<lparr>model := apiKey\<rparr>, [])
         else (Inl (Error auth_required_message), s, []))"

text \<open>\<open>callCodeAssistAPI\<close>, lines 257 to 314.\<close>

definition callCodeAssistAPI ::
  "SearchWorld \<Rightarrow> Session \<Rightarrow> string \<Rightarrow> (js_error + SearchPayload) \<times> NetCall list" where
  "callCodeAssistAPI w s query =
     (case oauthClient s of
        None \<Rightarrow> (Inl (Error ''OAuth client not initialized''), [])
      | Some client \<Rightarrow>
          let pid = or_else (projectId s) (env w ''GOOGLE_CLOUD_PROJECT'')
          in if \<not> truthy pid
             then (Inl (Error ''Project ID not available. Please run setup first.''), [])
             else
               (case generateContent_fetch w (the pid) query of
                  Inl e \<Rightarrow> (Inl e, [FetchGenerateContent (the pid) query])
                | Inr response \<Rightarrow>
                    if \<not> ok response
                    then (Inl (Error (''Code Assist API error: '' @ show_nat (status response) @
                                       '' '' @ statusText response)),
                          [FetchGenerateContent (the pid) query])
                    else
                      (case body_json response of
                         Inl e \<Rightarrow> (Inl e, [FetchGenerateContent (the pid) query])
                       | Inr result \<Rightarrow>
                           (Inr (result\<lparr>responseText := Some (or_default (responseText result) [])\<rparr>),
                            [FetchGenerateContent (the pid) query]))))"

text \<open>The two \<open>return\<close>s with a fixed text and the \<open>catch\<close> block of \<open>handleWebSearch\<close>.\<close>

definition empty_query_result :: CallToolResult where
  "empty_query_result =
     \<lparr>content_text = ''Error: The query parameter cannot be empty.'', isError = True\<rparr>"

definition caught :: "string option \<Rightarrow> js_error \<Rightarrow> CallToolResult" where
  "caught query e =
     \<lparr>content_text = ''Error during web search for query '' @ quoted (template query) @ '': '' @ message e,
      isError = True\<rparr>"

text \<open>\<open>!args.query || args.query.trim() === ''\<close>\<close>

definition query_is_empty :: "string option \<Rightarrow> bool" where
  "query_is_empty query = (\<not> truthy query \<or> trim (the query) = [])"

text \<open>
  \<open>handleWebSearch\<close>, lines 139 to 255. The result comes with the session as the call leaves
  it and the calls that left the process.
\<close>

definition handleWebSearch ::
  "SearchWorld \<Rightarrow> Session \<Rightarrow> string option \<Rightarrow> CallToolResult \<times> Session \<times> NetCall list" where
  "handleWebSearch w s0 query =
     (let (init, s, calls0) =
            (if model s0 = None \<and> oauthClient s0 = None
             then initializeGeminiClient w s0
             else (Inr (), s0, []))
      in case init of
           Inl e \<Rightarrow> (caught query e, s, calls0)
         | Inr _ \<Rightarrow>
             if query_is_empty query then (empty_query_result, s, calls0)
             else
               let q = the query;
                   (found, calls1) =
                     (if oauthClient s \<noteq> None then callCodeAssistAPI w s q
                      else if model s \<noteq> None then (sendMessage_result w q, [SendMessage q])
                      else (Inl (Error ''No authentication method available''), []))
               in (case found of
                    Inl e \<Rightarrow> (caught query e, s, calls0 @ calls1)
                  | Inr payload \<Rightarrow>
                      if \<not> truthy (responseText payload) \<or> trim (the (responseText payload)) = []
                      then (\<lparr>content_text = ''No search results or information found for query: '' @ quoted q,
                             isError = False\<rparr>, s, calls0 @ calls1)
                      else
                        (\<lparr>content_text = ''Web search results for '' @ quoted q @ '':\<newline>\<newline>'' @
                             citation_merger (the (responseText payload)) (groundingChunks payload)
                               (groundingSupports payload),
                           isError = False\<rparr>, s, calls0 @ calls1)))"

section \<open>Credential cache and loopback authorization (src/oauth.ts)\<close>

text \<open>A file of the file system: missing, present but not readable, or readable with a content.\<close>

datatype file_state = Absent | Unreadable | Content string

text \<open>
  The file system: the state of every path, and whether \<open>mkdir\<close> and \<open>writeFile\<close> succeed for
  a path.
\<close>

record FileSystem =
  files :: "string \<Rightarrow> file_state"
  can_write :: "string \<Rightarrow> bool"

definition readFile :: "FileSystem \<Rightarrow> string \<Rightarrow> js_error + string" where
  "readFile fs p =
     (case files fs p of
        Absent \<Rightarrow> Inl (Error ''ENOENT: no such file or directory'')
      | Unreadable \<Rightarrow> Inl (Error ''EACCES: permission denied'')
      | Content c \<Rightarrow> Inr c)"

definition writeFile :: "FileSystem \<Rightarrow> string \<Rightarrow> string \<Rightarrow> js_error + FileSystem" where
  "writeFile fs p c =
     (if can_write fs p then Inr (fs\<lparr>files := (files fs)(p := Content c)\<rparr>)
      else Inl (Error ''EACCES: permission denied''))"

text \<open>
  What the code takes from the platform and from the authentication library:
  \<open>JSON.stringify\<close> and \<open>JSON.parse\<close> on credentials (\<open>None\<close> when the parser throws),
  \<open>getAccessToken\<close> (it may refresh the credentials it is given), \<open>getTokenInfo\<close>,
  \<open>getToken\<close> for a code and a redirect URI, and the query parameters that
  \<open>new url.URL(..).searchParams\<close> reads from a request URL (\<open>None\<close> when the constructor
  throws).
\<close>

record Platform =
  json_stringify :: "Credentials \<Rightarrow> string"
  json_parse :: "string \<Rightarrow> Credentials option"
  getAccessToken :: "Credentials \<Rightarrow> js_error + (string option \<times> Credentials)"
  getTokenInfo :: "string \<Rightarrow> js_error + unit"
  getToken :: "string \<Rightarrow> string \<Rightarrow> js_error + Credentials"
  searchParams :: "string \<Rightarrow> (string \<times> string) list option"

definition getCachedCredentialPath :: "string \<Rightarrow> string" where
  "getCachedCredentialPath homedir = homedir @ ''/.gemini/mcp_oauth_creds.json''"

text \<open>\<open>cacheCredentials\<close>, lines 160 to 166.\<close>

definition cacheCredentials ::
  "Platform \<Rightarrow> string \<Rightarrow> FileSystem \<Rightarrow> Credentials \<Rightarrow> js_error + FileSystem" where
  "cacheCredentials pf homedir fs creds =
     writeFile fs (getCachedCredentialPath homedir) (json_stringify pf creds)"

text \<open>
  The body of the \<open>try\<close> of \<open>loadCachedCredentials\<close>, lines 142 to 154: what it returns or
  throws, and the client as it leaves it.
\<close>

definition loadCachedCredentials_try ::
  "Platform \<Rightarrow> environment \<Rightarrow> string \<Rightarrow> FileSystem \<Rightarrow> OAuth2Client
     \<Rightarrow> (js_error + bool) \<times> OAuth2Client" where
  "loadCachedCredentials_try pf ev homedir fs client =
     (let keyFile = or_default (ev ''GOOGLE_APPLICATION_CREDENTIALS'') (getCachedCredentialPath homedir)
      in case readFile fs keyFile of
           Inl e \<Rightarrow> (Inl e, client)
         | Inr creds \<Rightarrow>
             (case json_parse pf creds of
                None \<Rightarrow> (Inl (Error ''Unexpected token in JSON''), client)
              | Some parsed \<Rightarrow>
                  (case getAccessToken pf parsed of
                     Inl e \<Rightarrow> (Inl e, client\<lparr>credentials := parsed\<rparr>)
                   | Inr (token, refreshed) \<Rightarrow>
                       if \<not> truthy token then (Inr False, client\<lparr>credentials := refreshed\<rparr>)
                       else
                         (case getTokenInfo pf (the token) of
                            Inl e \<Rightarrow> (Inl e, client\<lparr>credentials := refreshed\<rparr>)
                          | Inr _ \<Rightarrow> (Inr True, client\<lparr>credentials := refreshed\<rparr>)))))"

text \<open>\<open>loadCachedCredentials\<close>, lines 140 to 158: \<open>catch (_) { return false; }\<close>.\<close>

definition loadCachedCredentials ::
  "Platform \<Rightarrow> environment \<Rightarrow> string \<Rightarrow> FileSystem \<Rightarrow> OAuth2Client \<Rightarrow> bool \<times> OAuth2Client" where
  "loadCachedCredentials pf ev homedir fs client =
     (case loadCachedCredentials_try pf ev homedir fs client of
        (Inl _, client') \<Rightarrow> (False, client')
      | (Inr b, client') \<Rightarrow> (b, client'))"

text \<open>\<open>haystack.indexOf(needle) !== -1\<close>\<close>

fun starts_with :: "string \<Rightarrow> string \<Rightarrow> bool" where
  "starts_with [] s = True"
| "starts_with (p # ps) [] = False"
| "starts_with (p # ps) (c # cs) = (p = c \<and> starts_with ps cs)"

fun js_includes :: "string \<Rightarrow> string \<Rightarrow> bool" where
  "js_includes needle [] = (needle = [])"
| "js_includes needle (c # cs) = (starts_with needle (c # cs) \<or> js_includes needle cs)"

definition SIGN_IN_SUCCESS_URL :: string where
  "SIGN_IN_SUCCESS_URL = ''https://developers.google.com/gemini-code-assist/auth_success_gemini''"

definition SIGN_IN_FAILURE_URL :: string where
  "SIGN_IN_FAILURE_URL = ''https://developers.google.com/gemini-code-assist/auth_failure_gemini''"

definition HTTP_REDIRECT :: nat where
  "HTTP_REDIRECT = 301"

text \<open>What the request handler of \<open>authWithWeb\<close> does besides settling the promise.\<close>

datatype HandlerEffect =
    WriteHead nat string
  | End string
  | TokenEndpoint string string
  | ServerClose

text \<open>The promise is resolved (\<open>Inr\<close>) or rejected with an error (\<open>Inl\<close>).\<close>

record HandlerResult =
  settled :: "js_error + unit"
  client_after :: OAuth2Client
  fs_after :: FileSystem
  effects :: "HandlerEffect list"

text \<open>
  The request handler of \<open>authWithWeb\<close>, lines 72 to 109, for the state and the redirect URI
  that \<open>authWithWeb\<close> generated and a request with URL \<open>req_url\<close>. The \<open>finally\<close> closes the
  server on every path.
\<close>

definition oauth_callback ::
  "Platform \<Rightarrow> string \<Rightarrow> string \<Rightarrow> string \<Rightarrow> FileSystem \<Rightarrow> OAuth2Client \<Rightarrow> string
     \<Rightarrow> HandlerResult" where
  "oauth_callback pf homedir state redirectUri fs client req_url =
     (if \<not> js_includes ''/oauth2callback'' req_url then
        \<lparr>settled = Inl (Error (''Unexpected request: '' @ req_url)), client_after = client,
         fs_after = fs,
         effects = [WriteHead HTTP_REDIRECT SIGN_IN_FAILURE_URL, End [], ServerClose]\<rparr>
      else
        (case searchParams pf req_url of
           None \<Rightarrow>
             \<lparr>settled = Inl (Error ''Invalid URL''), client_after = client, fs_after = fs,
              effects = [ServerClose]\<rparr>
         | Some qs \<Rightarrow>
             if truthy (map_of qs ''error'') then
               \<lparr>settled = Inl (Error (''Error during authentication: '' @ the (map_of qs ''error''))),
                client_after = client, fs_after = fs,
                effects = [WriteHead HTTP_REDIRECT SIGN_IN_FAILURE_URL, End [], ServerClose]\<rparr>
             else if map_of qs ''state'' \<noteq> Some state then
               \<lparr>settled = Inl (Error ''State mismatch. Possible CSRF attack''),
                client_after = client, fs_after = fs,
                effects = [End ''State mismatch. Possible CSRF attack'', ServerClose]\<rparr>
             else if truthy (map_of qs ''code'') then
               (let code = the (map_of qs ''code'')
                in case getToken pf code redirectUri of
                     Inl e \<Rightarrow>
                       \<lparr>settled = Inl e, client_after = client, fs_after = fs,
                        effects = [TokenEndpoint code redirectUri, ServerClose]\<rparr>
                   | Inr tokens \<Rightarrow>
                       (case cacheCredentials pf homedir fs tokens of
                          Inl e \<Rightarrow>
                            \<lparr>settled = Inl e, client_after = client\<lparr>credentials := tokens\<rparr>,
                             fs_after = fs,
                             effects = [TokenEndpoint code redirectUri, ServerClose]\<rparr>
                        | Inr fs' \<Rightarrow>
                            \<lparr>settled = Inr (), client_after = client\<lparr>credentials := tokens\<rparr>,
                             fs_after = fs',
                             effects = [TokenEndpoint code redirectUri,
                                        WriteHead HTTP_REDIRECT SIGN_IN_SUCCESS_URL, End [],
                                        ServerClose]\<rparr>))
             else
               \<lparr>settled = Inl (Error ''No code found in request''), client_after = client,
                fs_after = fs, effects = [ServerClose]\<rparr>))"

section \<open>Project setup (setup.ts, in src/oauth.ts from line 178)\<close>



text \<open>
  The project configuration file \<open>~/.google-web-search/config.json\<close>: missing or unreadable,
  not an object that JSON can parse, or an object with its \<open>project_id\<close> field.
\<close>

datatype ConfigFile = ConfigMissing | ConfigCorrupt | ConfigJson "string option"








section \<open>Concrete worlds\<close>

text \<open>
  Concrete environments, platforms and file systems on which the properties below are
  instantiated.
\<close>

definition offline_world :: SearchWorld where
  "offline_world =
     \<lparr>env = Map.empty,
      getOauthClient_result = Inl (Error ''getaddrinfo ENOTFOUND oauth2.googleapis.com''),
      setupUserProject_result = (\<lambda>client. Inl (Error ''GOOGLE_CLOUD_PROJECT is required'')),
      generateContent_fetch = (\<lambda>project query. Inl (Error ''fetch failed'')),
      sendMessage_result = (\<lambda>query. Inl (Error ''fetch failed''))\<rparr>"

definition token_only :: "string \<Rightarrow> Credentials" where
  "token_only t =
     \<lparr>access_token = Some t, refresh_token = None, expiry_date = None, scope = None,
      token_type = None, id_token = None\<rparr>"

definition example_platform :: Platform where
  "example_platform =
     \<lparr>json_stringify = (\<lambda>c. ''{'' @ template (access_token c) @ ''}''),
      json_parse = (\<lambda>s. if s \<noteq> [] \<and> hd s = CHR ''{'' \<and> last s = CHR ''}'' \<and> 2 \<le> length s
                        then Some (token_only (butlast (tl s))) else None),
      getAccessToken = (\<lambda>c. Inr (access_token c, c)),
      getTokenInfo = (\<lambda>t. if t = ''ya29.valid'' then Inr () else Inl (Error ''invalid_token'')),
      getToken = (\<lambda>code uri. if code = ''4/ok'' then Inr (token_only ''ya29.valid'')
                               else Inl (Error ''invalid_grant'')),
      searchParams = (\<lambda>u.
         if u = ''/oauth2callback?error=access_denied&state=evil''
           then Some [(''error'', ''access_denied''), (''state'', ''evil'')]
         else if u = ''/oauth2callback?state=evil&code=4/ok''
           then Some [(''state'', ''evil''), (''code'', ''4/ok'')]
         else if u = ''/oauth2callback?state=s3cr3t&code=4/ok''
           then Some [(''state'', ''s3cr3t''), (''code'', ''4/ok'')]
         else None)\<rparr>"

definition empty_fs :: FileSystem where
  "empty_fs = \<lparr>files = (\<lambda>p. Absent), can_write = (\<lambda>p. True)\<rparr>"

definition new_client :: OAuth2Client where
  "new_client =
     \<lparr>credentials = \<lparr>access_token = None, refresh_token = None, expiry_date = None, scope = None,
        token_type = None, id_token = None\<rparr>\<rparr>"



section \<open>Properties of the citation merger\<close>

lemma splice_js_in_range:
  "k \<le> length xs \<Longrightarrow> splice_js (xs @ T) (int k) m = take k xs @ [m] @ drop k xs @ T"
  by (simp add: splice_js_def Let_def min_def)


lemma splice_js_tail:
  assumes "int (length b) \<le> i"
  shows "\<exists>M'. mset M' = add_mset m (mset M) \<and> splice_js (b @ M) i m = b @ M'"
proof -
  define k where "k = nat (min i (int (length (b @ M)))) - length b"
  have "splice_js (b @ M) i m = b @ (take k M @ [m] @ drop k M)"
    using assms by (simp add: splice_js_def Let_def k_def min_def nat_diff_distrib)
  moreover have "mset (take k M @ [m] @ drop k M) = add_mset m (mset M)"
    by (metis append_take_drop_id mset.simps(2) mset_append union_mset_add_mset_right append_Cons append_Nil)
  ultimately show ?thesis by blast
qed

lemma apply_insertions_beyond:
  "\<forall>i\<in>set ins. int (length b) \<le> index i \<Longrightarrow>
   \<exists>M'. mset M' = mset M + mset (map marker ins) \<and> apply_insertions (b @ M) ins = b @ M'"
proof (induction ins arbitrary: M)
  case Nil
  then show ?case by (simp add: apply_insertions_def)
next
  case (Cons i ins)
  obtain M1 where M1: "mset M1 = add_mset (marker i) (mset M)"
      "splice_js (b @ M) (index i) (marker i) = b @ M1"
    using splice_js_tail[of b "index i" "marker i" M] Cons.prems by auto
  obtain M2 where M2: "mset M2 = mset M1 + mset (map marker ins)"
      "apply_insertions (b @ M1) ins = b @ M2"
    using Cons.IH[of M1] Cons.prems by auto
  show ?case
    using M1 M2 by (intro exI[of _ M2]) (simp add: apply_insertions_def)
qed


lemma markers_at_Nil [simp]: "markers_at [] p = []"
  by (simp add: markers_at_def)

lemma place_buf_none:
  "\<forall>i\<in>set ins. index i < int p \<Longrightarrow> place_buf p b ins = b"
proof (induction b arbitrary: p)
  case Nil
  then have "filter (\<lambda>i. index i = int p) ins = []" by (auto simp: filter_empty_conv)
  then show ?case by (simp add: markers_at_def)
next
  case (Cons x xs)
  then have "filter (\<lambda>i. index i = int p) ins = []" by (auto simp: filter_empty_conv)
  moreover have "place_buf (Suc p) xs ins = xs" using Cons.prems by (intro Cons.IH) auto
  ultimately show ?case by (simp add: markers_at_def)
qed

lemma place_buf_Cons:
  "index i = int (p + k) \<Longrightarrow> k \<le> length b \<Longrightarrow> \<forall>j\<in>set S. index j \<le> index i \<Longrightarrow>
   place_buf p b (i # S) = place_buf p (take k b) S @ [marker i] @ drop k b"
proof (induction b arbitrary: p k)
  case Nil
  then show ?case by (simp add: markers_at_def)
next
  case (Cons x xs)
  show ?case
  proof (cases k)
    case 0
    have "place_buf (Suc p) xs (i # S) = xs"
      using Cons.prems 0 by (intro place_buf_none) auto
    then show ?thesis using 0 Cons.prems by (simp add: markers_at_def)
  next
    case (Suc k')
    have "place_buf (Suc p) xs (i # S) = place_buf (Suc p) (take k' xs) S @ [marker i] @ drop k' xs"
      using Cons.prems Suc by (intro Cons.IH) auto
    then show ?thesis using Suc Cons.prems by (simp add: markers_at_def)
  qed
qed

lemma apply_insertions_sorted:
  "sorted (map (\<lambda>i. - index i) S) \<Longrightarrow> \<forall>i\<in>set S. 0 \<le> index i \<and> index i \<le> int (length b) \<Longrightarrow>
   apply_insertions (b @ T) S = place_buf 0 b S @ T"
proof (induction S arbitrary: b T)
  case Nil
  then show ?case by (simp add: apply_insertions_def place_buf_none)
next
  case (Cons i S)
  define k where "k = nat (index i)"
  have k: "index i = int k" "k \<le> length b" using Cons.prems by (auto simp: k_def)
  have le: "\<forall>j\<in>set S. index j \<le> index i" using Cons.prems(1) by auto
  have "apply_insertions (b @ T) (i # S)
        = apply_insertions (take k b @ ([marker i] @ drop k b @ T)) S"
    using splice_js_in_range[of k b T "marker i"] k by (simp add: apply_insertions_def)
  also have "\<dots> = place_buf 0 (take k b) S @ ([marker i] @ drop k b @ T)"
    using Cons.prems le k by (intro Cons.IH) auto
  also have "\<dots> = place_buf 0 b (i # S) @ T"
    using place_buf_Cons[of i 0 k b S] k le by simp
  finally show ?case .
qed

lemma markers_at_sort: "markers_at (sort_insertions ins) p = markers_at ins p"
proof -
  have "filter (\<lambda>i. - index i = - int p) (sort_key (\<lambda>i. - index i) ins)
        = filter (\<lambda>i. - index i = - int p) ins"
    by (rule sort_key_stable)
  then show ?thesis by (simp add: markers_at_def sort_insertions_def)
qed

lemma place_buf_sort: "place_buf p b (sort_insertions ins) = place_buf p b ins"
  by (induction b arbitrary: p) (simp_all add: markers_at_sort)

lemma concat_place_buf: "concat (place_buf p (map (\<lambda>c. [c]) str) ins) = spec_place_from p str ins"
  by (induction str arbitrary: p) simp_all

lemma sorted_split:
  "sorted (map f xs) \<Longrightarrow> xs = filter (\<lambda>x. f x < (c::int)) xs @ filter (\<lambda>x. \<not> f x < c) xs"
proof (induction xs)
  case Nil
  then show ?case by simp
next
  case (Cons x xs)
  show ?case
  proof (cases "f x < c")
    case True
    then show ?thesis using Cons by simp
  next
    case False
    then have "\<forall>y\<in>set xs. \<not> f y < c" using Cons.prems by auto
    then have "filter (\<lambda>x. f x < c) xs = []" "filter (\<lambda>x. \<not> f x < c) xs = xs"
      by (auto simp: filter_empty_conv filter_id_conv)
    then show ?thesis using False by simp
  qed
qed

lemma sort_insertions_split:
  "sort_insertions ins =
     sort_insertions (filter (\<lambda>i. int n < index i) ins) @ sort_insertions (filter (\<lambda>i. index i \<le> int n) ins)"
proof -
  have "sorted (map (\<lambda>i. - index i) (sort_insertions ins))"
    by (simp add: sort_insertions_def)
  from sorted_split[OF this, of "- int n"]
  have "sort_insertions ins = filter (\<lambda>i. int n < index i) (sort_insertions ins)
          @ filter (\<lambda>i. index i \<le> int n) (sort_insertions ins)"
    by (simp add: not_less)
  then show ?thesis by (simp add: sort_insertions_def filter_sort)
qed

lemma insert_markers_split:
  assumes "\<forall>i\<in>set ins. 0 \<le> index i"
  shows "\<exists>M. mset M = mset (map marker (filter (\<lambda>i. int (length str) < index i) ins)) \<and>
     apply_insertions (map (\<lambda>c. [c]) str) (sort_insertions ins)
       = apply_insertions (map (\<lambda>c. [c]) str @ M) (sort_insertions (filter (\<lambda>i. index i \<le> int (length str)) ins))"
proof -
  let ?b = "map (\<lambda>c. [c]) str"
  let ?O = "sort_insertions (filter (\<lambda>i. int (length str) < index i) ins)"
  have "\<forall>i\<in>set ?O. int (length ?b) \<le> index i" by (auto simp: sort_insertions_def)
  from apply_insertions_beyond[OF this, of "[]"]
  obtain M where M: "mset M = mset (map marker ?O)" "apply_insertions ?b ?O = ?b @ M" by auto
  have "mset (map marker ?O) = mset (map marker (filter (\<lambda>i. int (length str) < index i) ins))"
    by (simp add: sort_insertions_def)
  then show ?thesis
    using M by (intro exI[of _ M])
      (simp add: sort_insertions_split[of ins "length str"] apply_insertions_def)
qed


text \<open>
  C3. The scenario of the spec: one support ending at offset 21 that cites chunk 0, one chunk
  titled Wiki, produce the text with the marker \<open>[1]\<close> at its end and the one-line source list.
\<close>

theorem citation_merger_paris:
  "citation_merger ''Paris is the capital.''
     (Some [\<lparr>web = Some \<lparr>uri = Some ''https://wiki.example'', title = Some ''Wiki''\<rparr>\<rparr>])
     (Some [\<lparr>segment = Some \<lparr>startIndex = 0, endIndex = 21\<rparr>, groundingChunkIndices = Some [0]\<rparr>])
   = ''Paris is the capital.[1]\<newline>\<newline>Sources:\<newline>[1] Wiki (https://wiki.example)''"
  by code_simp

text \<open>
  C4. Sorting by descending index and splicing one marker after the other puts every marker
  whose index is an offset of the text (from 0 to its length) exactly at that offset of the
  text as it was before any insertion: an insertion applied earlier, at a higher index, shifts
  none of the offsets still to be used, also when that higher index lies beyond the text. No
  index is negative.
\<close>

theorem insert_markers_at_recorded_offsets:
  assumes "\<forall>i\<in>set ins. 0 \<le> index i"
  shows "((\<forall>i\<in>set ins. index i \<le> int (length str)) \<longrightarrow>
            insert_markers str ins = spec_place_markers str ins) \<and>
         (\<exists>M. mset M = mset (map marker (filter (\<lambda>i. int (length str) < index i) ins)) \<and>
            insert_markers str ins
              = spec_place_markers str (filter (\<lambda>i. index i \<le> int (length str)) ins) @ concat M)"
proof -
  let ?b = "map (\<lambda>c. [c]) str"
  let ?I = "filter (\<lambda>i. index i \<le> int (length str)) ins"
  have placed: "apply_insertions (?b @ T) (sort_insertions J) = place_buf 0 ?b J @ T"
    if "\<forall>i\<in>set J. 0 \<le> index i \<and> index i \<le> int (length str)" for J T
  proof -
    have "sorted (map (\<lambda>i. - index i) (sort_insertions J))"
      by (simp add: sort_insertions_def)
    moreover have "\<forall>i\<in>set (sort_insertions J). 0 \<le> index i \<and> index i \<le> int (length ?b)"
      using that by (simp add: sort_insertions_def)
    ultimately have "apply_insertions (?b @ T) (sort_insertions J) = place_buf 0 ?b (sort_insertions J) @ T"
      by (rule apply_insertions_sorted)
    then show ?thesis by (simp add: place_buf_sort)
  qed
  have first: "insert_markers str ins = spec_place_markers str ins"
    if "\<forall>i\<in>set ins. index i \<le> int (length str)"
    using placed[of ins "[]"] that assms
    by (simp add: insert_markers_def spec_place_markers_def concat_place_buf)
  obtain M where M: "mset M = mset (map marker (filter (\<lambda>i. int (length str) < index i) ins))"
      "apply_insertions ?b (sort_insertions ins) = apply_insertions (?b @ M) (sort_insertions ?I)"
    using insert_markers_split[OF assms, of str] by blast
  have "apply_insertions (?b @ M) (sort_insertions ?I) = place_buf 0 ?b ?I @ M"
    using assms by (intro placed) simp
  then have "insert_markers str ins = spec_place_markers str ?I @ concat M"
    using M(2) by (simp add: insert_markers_def spec_place_markers_def concat_place_buf)
  with M(1) first show ?thesis by blast
qed

theorem insert_markers_at_recorded_offsets_witness:
  "insert_markers ''abcdefghij''
     [\<lparr>index = 10, marker = ''[1]''\<rparr>, \<lparr>index = 5, marker = ''[2]''\<rparr>, \<lparr>index = 2, marker = ''[3]''\<rparr>]
   = ''ab[3]cde[2]fghij[1]''"
proof -
  let ?ins = "[\<lparr>index = 10, marker = ''[1]''\<rparr>, \<lparr>index = 5, marker = ''[2]''\<rparr>, \<lparr>index = 2, marker = ''[3]''\<rparr>]"
  have "\<forall>i\<in>set ?ins. 0 \<le> index i" by simp
  from insert_markers_at_recorded_offsets[OF this, of "''abcdefghij''"]
  show ?thesis by (simp add: spec_place_markers_def markers_at_def)
qed












text \<open>
  C7. With no grounding chunks (the list is missing or empty) the merger returns the response
  text unchanged: no inline marker, no trailing sources block, whatever the supports are.
\<close>

theorem citation_merger_no_sources:
  "citation_merger str None sups = str \<and> citation_merger str (Some []) sups = str"
  by (simp add: citation_merger_def)

section \<open>Properties of the search operation\<close>

lemma initializeGeminiClient_calls:
  "set (snd (snd (initializeGeminiClient w s))) \<subseteq> {GetOauthClient, SetupUserProject}"
  by (auto simp: initializeGeminiClient_def Let_def split: sum.splits)

lemma initializeGeminiClient_api_key:
  assumes "truthy (or_else (env w ''GOOGLE_API_KEY'') (env w ''GEMINI_API_KEY''))"
    and "env w ''USE_OAUTH'' \<noteq> Some ''true''"
  shows "initializeGeminiClient w s
         = (Inr (), s\<lparr>model := or_else (env w ''GOOGLE_API_KEY'') (env w ''GEMINI_API_KEY'')\<rparr>, [])"
  using assms by (simp add: initializeGeminiClient_def Let_def)

text \<open>
  C1, as the code has it. For an empty or whitespace-only query the search fails and no
  search backend is called. On a session that is already initialised, and on a fresh one that
  is configured with an API key and not for OAuth, the failure is the empty-query error and
  nothing leaves the process. On a fresh session that uses OAuth, the lazy initialisation
  (\<open>getOauthClient\<close>, then \<open>setupUserProject\<close>) runs before the query is looked at: the result
  is the empty-query error when it succeeds and the error it throws otherwise.
\<close>

theorem empty_query_fails_before_search:
  assumes "query_is_empty query"
  shows "isError (fst (handleWebSearch w s query)) \<and>
         set (snd (snd (handleWebSearch w s query))) \<subseteq> {GetOauthClient, SetupUserProject} \<and>
         (model s \<noteq> None \<or> oauthClient s \<noteq> None \<longrightarrow>
            handleWebSearch w s query = (empty_query_result, s, [])) \<and>
         (model s = None \<and> oauthClient s = None \<and>
          truthy (or_else (env w ''GOOGLE_API_KEY'') (env w ''GEMINI_API_KEY'')) \<and>
          env w ''USE_OAUTH'' \<noteq> Some ''true'' \<longrightarrow>
            fst (handleWebSearch w s query) = empty_query_result \<and>
            snd (snd (handleWebSearch w s query)) = []) \<and>
         (model s = None \<and> oauthClient s = None \<longrightarrow>
            (\<forall>e s' calls. initializeGeminiClient w s = (Inl e, s', calls) \<longrightarrow>
               handleWebSearch w s query = (caught query e, s', calls)) \<and>
            (\<forall>u s' calls. initializeGeminiClient w s = (Inr u, s', calls) \<longrightarrow>
               handleWebSearch w s query = (empty_query_result, s', calls)))"
proof (intro conjI impI allI)
  show "isError (fst (handleWebSearch w s query))"
    using assms
    by (auto simp: handleWebSearch_def Let_def caught_def empty_query_result_def
        split: prod.splits sum.splits)
  show "set (snd (snd (handleWebSearch w s query))) \<subseteq> {GetOauthClient, SetupUserProject}"
  proof (cases "model s = None \<and> oauthClient s = None")
    case True
    obtain r s' calls where i: "initializeGeminiClient w s = (r, s', calls)"
      by (cases "initializeGeminiClient w s") auto
    then have "set calls \<subseteq> {GetOauthClient, SetupUserProject}"
      using initializeGeminiClient_calls[of w s] by simp
    then show ?thesis
      using assms True i by (cases r) (simp_all add: handleWebSearch_def)
  next
    case False
    then show ?thesis using assms by (auto simp: handleWebSearch_def)
  qed
  show "handleWebSearch w s query = (empty_query_result, s, [])"
    if "model s \<noteq> None \<or> oauthClient s \<noteq> None"
    using that assms by (auto simp: handleWebSearch_def)
  have key: "fst (handleWebSearch w s query) = empty_query_result \<and>
        snd (snd (handleWebSearch w s query)) = []"
    if "model s = None \<and> oauthClient s = None \<and>
        truthy (or_else (env w ''GOOGLE_API_KEY'') (env w ''GEMINI_API_KEY'')) \<and>
        env w ''USE_OAUTH'' \<noteq> Some ''true''"
    using that assms initializeGeminiClient_api_key[of w s]
    by (simp add: handleWebSearch_def)
  show "fst (handleWebSearch w s query) = empty_query_result"
    if "model s = None \<and> oauthClient s = None \<and>
        truthy (or_else (env w ''GOOGLE_API_KEY'') (env w ''GEMINI_API_KEY'')) \<and>
        env w ''USE_OAUTH'' \<noteq> Some ''true''"
    using key[OF that] by simp
  show "snd (snd (handleWebSearch w s query)) = []"
    if "model s = None \<and> oauthClient s = None \<and>
        truthy (or_else (env w ''GOOGLE_API_KEY'') (env w ''GEMINI_API_KEY'')) \<and>
        env w ''USE_OAUTH'' \<noteq> Some ''true''"
    using key[OF that] by simp
  show "handleWebSearch w s query = (caught query e, s', calls)"
    if "model s = None \<and> oauthClient s = None" "initializeGeminiClient w s = (Inl e, s', calls)"
    for e s' calls
    using that assms by (simp add: handleWebSearch_def)
  show "handleWebSearch w s query = (empty_query_result, s', calls)"
    if "model s = None \<and> oauthClient s = None" "initializeGeminiClient w s = (Inr u, s', calls)"
    for u s' calls
    using that assms by (simp add: handleWebSearch_def)
qed

theorem empty_query_fails_before_search_witness:
  "handleWebSearch offline_world (new_session\<lparr>model := Some ''key''\<rparr>) (Some ''  '')
     = (empty_query_result, new_session\<lparr>model := Some ''key''\<rparr>, []) \<and>
   isError (fst (handleWebSearch offline_world new_session (Some ''  '')))"
proof -
  have q: "query_is_empty (Some ''  '')"
    by (simp add: query_is_empty_def trim_def is_js_whitespace_def)
  show ?thesis
    using empty_query_fails_before_search[OF q, of offline_world "new_session\<lparr>model := Some ''key''\<rparr>"]
      empty_query_fails_before_search[OF q, of offline_world new_session]
    by (simp add: new_session_def)
qed

theorem empty_query_counterexample:
  "query_is_empty (Some ''  '') \<and>
   handleWebSearch offline_world new_session (Some ''  '')
     = (caught (Some ''  '') (Error ''getaddrinfo ENOTFOUND oauth2.googleapis.com''),
        new_session, [GetOauthClient]) \<and>
   fst (handleWebSearch offline_world new_session (Some ''  '')) \<noteq> empty_query_result"
  by (simp add: query_is_empty_def trim_def is_js_whitespace_def handleWebSearch_def
      initializeGeminiClient_def offline_world_def new_session_def or_else_def
      caught_def empty_query_result_def)

section \<open>Properties of the credential cache and of the loopback flow\<close>

text \<open>
  C9. \<open>loadCachedCredentials\<close> never throws: whatever its \<open>try\<close> block throws, it returns
  false. In particular it returns false, and leaves the client as it was, when the credential
  file is absent, unreadable, or holds something that JSON cannot parse.
\<close>

theorem loadCachedCredentials_never_throws:
  "(\<forall>e c. loadCachedCredentials_try pf ev homedir fs client = (Inl e, c) \<longrightarrow>
       loadCachedCredentials pf ev homedir fs client = (False, c)) \<and>
   (files fs (or_default (ev ''GOOGLE_APPLICATION_CREDENTIALS'') (getCachedCredentialPath homedir)) = Absent \<or>
    files fs (or_default (ev ''GOOGLE_APPLICATION_CREDENTIALS'') (getCachedCredentialPath homedir)) = Unreadable \<or>
    (\<exists>c. files fs (or_default (ev ''GOOGLE_APPLICATION_CREDENTIALS'') (getCachedCredentialPath homedir)) = Content c \<and>
         json_parse pf c = None) \<longrightarrow>
       loadCachedCredentials pf ev homedir fs client = (False, client))"
  by (auto simp: loadCachedCredentials_def loadCachedCredentials_try_def readFile_def Let_def)

theorem loadCachedCredentials_never_throws_witness:
  "loadCachedCredentials example_platform Map.empty ''/home/u'' empty_fs new_client = (False, new_client) \<and>
   loadCachedCredentials example_platform Map.empty ''/home/u''
     (empty_fs\<lparr>files := (files empty_fs)(''/home/u/.gemini/mcp_oauth_creds.json'' := Content ''not json'')\<rparr>)
     new_client = (False, new_client)"
proof -
  have p: "or_default (Map.empty ''GOOGLE_APPLICATION_CREDENTIALS'') (getCachedCredentialPath ''/home/u'')
           = ''/home/u/.gemini/mcp_oauth_creds.json''"
    by (simp add: or_default_def getCachedCredentialPath_def)
  have a: "files empty_fs ''/home/u/.gemini/mcp_oauth_creds.json'' = Absent"
    by (simp add: empty_fs_def)
  have b: "json_parse example_platform ''not json'' = None"
    by (simp add: example_platform_def)
  show ?thesis
    using loadCachedCredentials_never_throws[of example_platform Map.empty "''/home/u''" empty_fs new_client]
      loadCachedCredentials_never_throws[of example_platform Map.empty "''/home/u''"
        "empty_fs\<lparr>files := (files empty_fs)(''/home/u/.gemini/mcp_oauth_creds.json'' := Content ''not json'')\<rparr>"
        new_client]
    unfolding p using a b by simp
qed




text \<open>
  C6, as the code has it. A request whose \<open>state\<close> parameter is not the generated state
  rejects the login and never reaches the token endpoint; the client and the credential cache
  stay as they were. The error is the CSRF mismatch when the request is a callback that carries
  no \<open>error\<close> parameter; every callback with an \<open>error\<close> parameter is rejected with
  the authentication error of that parameter, whatever its state.
\<close>

theorem state_mismatch_never_exchanges:
  assumes "\<forall>qs. searchParams pf req_url = Some qs \<longrightarrow> map_of qs ''state'' \<noteq> Some state"
  shows "isl (settled (oauth_callback pf homedir state redirectUri fs client req_url)) \<and>
         (\<forall>code uri. TokenEndpoint code uri
            \<notin> set (effects (oauth_callback pf homedir state redirectUri fs client req_url))) \<and>
         client_after (oauth_callback pf homedir state redirectUri fs client req_url) = client \<and>
         fs_after (oauth_callback pf homedir state redirectUri fs client req_url) = fs \<and>
         last (effects (oauth_callback pf homedir state redirectUri fs client req_url)) = ServerClose \<and>
         (\<forall>qs. js_includes ''/oauth2callback'' req_url \<and> searchParams pf req_url = Some qs \<and>
               \<not> truthy (map_of qs ''error'') \<longrightarrow>
            settled (oauth_callback pf homedir state redirectUri fs client req_url)
              = Inl (Error ''State mismatch. Possible CSRF attack'')) \<and>
         (\<forall>qs any_state. js_includes ''/oauth2callback'' req_url \<and> searchParams pf req_url = Some qs \<and>
               truthy (map_of qs ''error'') \<longrightarrow>
            settled (oauth_callback pf homedir any_state redirectUri fs client req_url)
              = Inl (Error (''Error during authentication: '' @ the (map_of qs ''error''))))"
  using assms by (auto simp: oauth_callback_def split: option.splits)

theorem state_mismatch_never_exchanges_witness:
  "oauth_callback example_platform ''/home/u'' ''s3cr3t'' ''http://localhost:4321/oauth2callback''
     empty_fs new_client ''/oauth2callback?state=evil&code=4/ok''
   = \<lparr>settled = Inl (Error ''State mismatch. Possible CSRF attack''), client_after = new_client,
      fs_after = empty_fs,
      effects = [End ''State mismatch. Possible CSRF attack'', ServerClose]\<rparr>"
proof -
  let ?r = "oauth_callback example_platform ''/home/u'' ''s3cr3t'' ''http://localhost:4321/oauth2callback''
     empty_fs new_client ''/oauth2callback?state=evil&code=4/ok''"
  have sp: "searchParams example_platform ''/oauth2callback?state=evil&code=4/ok''
            = Some [(''state'', ''evil''), (''code'', ''4/ok'')]"
    by (simp add: example_platform_def)
  have h: "\<forall>qs. searchParams example_platform ''/oauth2callback?state=evil&code=4/ok'' = Some qs
             \<longrightarrow> map_of qs ''state'' \<noteq> Some ''s3cr3t''"
    by (simp add: sp)
  have inc: "js_includes ''/oauth2callback'' ''/oauth2callback?state=evil&code=4/ok''" by simp
  have eff: "effects ?r = [End ''State mismatch. Possible CSRF attack'', ServerClose]"
    by (simp add: oauth_callback_def sp)
  from state_mismatch_never_exchanges[OF h, of "''/home/u''" "''http://localhost:4321/oauth2callback''" empty_fs new_client]
  have "settled ?r = Inl (Error ''State mismatch. Possible CSRF attack'')"
     "client_after ?r = new_client" "fs_after ?r = empty_fs"
    using sp inc by simp_all
  with eff show ?thesis by (cases ?r) simp
qed

text \<open>
  The claim as the spec states it fails for a callback that carries an \<open>error\<close> parameter
  and a wrong state: the \<open>error\<close> parameter is looked at first, so the login is rejected with
  the authentication error, not with the CSRF mismatch.
\<close>

theorem state_mismatch_counterexample:
  "map_of [(''error'', ''access_denied''), (''state'', ''evil'')] ''state'' \<noteq> Some ''s3cr3t'' \<and>
   settled (oauth_callback example_platform ''/home/u'' ''s3cr3t'' ''http://localhost:4321/oauth2callback''
     empty_fs new_client ''/oauth2callback?error=access_denied&state=evil'')
   = Inl (Error ''Error during authentication: access_denied'') \<and>
   settled (oauth_callback example_platform ''/home/u'' ''s3cr3t'' ''http://localhost:4321/oauth2callback''
     empty_fs new_client ''/oauth2callback?error=access_denied&state=evil'')
   \<noteq> Inl (Error ''State mismatch. Possible CSRF attack'')"
  by (simp add: oauth_callback_def example_platform_def)

section \<open>Properties of the project setup\<close>





end
